theory Spec2Isabelle
  imports Main "HOL-Library.AList" "HOL-Library.Sublist"
begin

section \<open>Strings as the source uses them\<close>

text \<open>
  A JavaScript string is modelled as a \<^typ>\<open>string\<close>, one \<^typ>\<open>char\<close> per code unit
  below 256. The three String.prototype tests used by the source are the list relations
  of the library.
\<close>

definition startsWith :: "string \<Rightarrow> string \<Rightarrow> bool" where
  "startsWith s p = prefix p s"

definition endsWith :: "string \<Rightarrow> string \<Rightarrow> bool" where
  "endsWith s p = suffix p s"

definition includesStr :: "string \<Rightarrow> string \<Rightarrow> bool" where
  "includesStr s p = sublist p s"

definition toLowerChar :: "char \<Rightarrow> char" where
  "toLowerChar c =
     (case map_of (zip ''ABCDEFGHIJKLMNOPQRSTUVWXYZ'' ''abcdefghijklmnopqrstuvwxyz'') c of
        Some d \<Rightarrow> d
      | None \<Rightarrow> c)"

definition toLowerCase :: "string \<Rightarrow> string" where
  "toLowerCase s = map toLowerChar s"

definition isWhiteSpace :: "char \<Rightarrow> bool" where
  "isWhiteSpace c =
     (c \<in> set [CHR 0x09, CHR 0x0A, CHR 0x0B, CHR 0x0C, CHR 0x0D, CHR 0x20, CHR 0xA0])"

definition trim :: "string \<Rightarrow> string" where
  "trim s = rev (dropWhile isWhiteSpace (rev (dropWhile isWhiteSpace s)))"

section \<open>The POSIX path module\<close>

text \<open>
  \<open>path.join\<close> and \<open>path.resolve\<close> of Node's POSIX path module. Both are lexical: a path is
  cut at its slashes, empty and \<open>.\<close> segments are dropped, and a \<open>..\<close> segment removes the
  segment before it. Neither looks at the file system, so neither follows a symbolic link.
\<close>

fun splitOn :: "char \<Rightarrow> string \<Rightarrow> string list" where
  "splitOn c [] = [[]]"
| "splitOn c (x # xs) =
     (if x = c then [] # splitOn c xs
      else (case splitOn c xs of
              [] \<Rightarrow> [[x]]
            | s # ss \<Rightarrow> (x # s) # ss))"

fun joinWith :: "string \<Rightarrow> string list \<Rightarrow> string" where
  "joinWith sep [] = []"
| "joinWith sep [s] = s"
| "joinWith sep (s # t # ss) = s @ sep @ joinWith sep (t # ss)"

text \<open>The accumulator of the segment walk holds the segments kept so far, last one first.\<close>

fun normalizeSegments :: "bool \<Rightarrow> string list \<Rightarrow> string list \<Rightarrow> string list" where
  "normalizeSegments allowAboveRoot [] acc = rev acc"
| "normalizeSegments allowAboveRoot (s # ss) acc =
     (if s = [] \<or> s = ''.'' then normalizeSegments allowAboveRoot ss acc
      else if s = ''..'' then
        (case acc of
           t # ts \<Rightarrow>
             (if t \<noteq> ''..'' then normalizeSegments allowAboveRoot ss ts
              else if allowAboveRoot then normalizeSegments allowAboveRoot ss (''..'' # acc)
              else normalizeSegments allowAboveRoot ss acc)
         | [] \<Rightarrow>
             (if allowAboveRoot then normalizeSegments allowAboveRoot ss [''..'']
              else normalizeSegments allowAboveRoot ss []))
      else normalizeSegments allowAboveRoot ss (s # acc))"

definition normalizeString :: "string \<Rightarrow> bool \<Rightarrow> string" where
  "normalizeString p allowAboveRoot =
     joinWith ''/'' (normalizeSegments allowAboveRoot (splitOn (CHR ''/'') p) [])"

definition isAbsolute :: "string \<Rightarrow> bool" where
  "isAbsolute p = (case p of [] \<Rightarrow> False | c # _ \<Rightarrow> c = CHR ''/'')"

definition path_normalize :: "string \<Rightarrow> string" where
  "path_normalize p =
     (if p = [] then ''.''
      else
        (let trailingSeparator = (last p = CHR ''/'');
             r = normalizeString p (\<not> isAbsolute p)
         in if r = [] then
              (if isAbsolute p then ''/'' else if trailingSeparator then ''./'' else ''.'')
            else (if isAbsolute p then ''/'' else []) @ r
                   @ (if trailingSeparator then ''/'' else [])))"

definition path_join :: "string list \<Rightarrow> string" where
  "path_join args =
     (let joined = joinWith ''/'' (filter (\<lambda>a. a \<noteq> []) args)
      in if joined = [] then ''.'' else path_normalize joined)"

text \<open>
  \<open>path.resolve\<close> with one argument. A relative argument is taken from the working
  directory of the process, which is an absolute path.
\<close>

definition path_resolve :: "string \<Rightarrow> string \<Rightarrow> string" where
  "path_resolve cwd p =
     ''/'' @ normalizeString (if isAbsolute p then p else cwd @ ''/'' @ p) False"

section \<open>The world outside the module\<close>

datatype error = ENOENT | EPERM | Failure string

datatype node = File string | Link string

datatype event =
    WriteFile string string
  | ExecFile string "string list" "(string \<times> string) list"
  | Unlink string
  | ConsoleError string error

text \<open>
  The file system is a flat table from absolute paths to nodes; directories are implicit.
  A symbolic link is a node of its own. \<open>locked\<close> holds the paths the process may not
  remove, \<open>cwd\<close> is the working directory, and \<open>trace\<close> lists every system
  call and log line issued so far, oldest first.
\<close>

record world =
  files :: "string \<rightharpoonup> node"
  locked :: "string set"
  cwd :: string
  trace :: "event list"

record clipboardContent =
  clip_text :: string
  clip_file :: "string option"

text \<open>
  What the host decides during one call: the answer of \<open>Clipboard.read()\<close>, the two
  successive results of \<open>randomUUID()\<close>, the environment of the process, whether writing
  a file fails, and what a launched program prints and does to the files (\<open>Inl\<close> when it
  cannot be launched or exits with a failure status).
\<close>

record host =
  clipboardRead :: "error + clipboardContent"
  uuid1 :: string
  uuid2 :: string
  processEnv :: "(string \<times> string) list"
  writeError :: "error option"
  child :: "string \<Rightarrow> string list \<Rightarrow> (string \<times> string) list \<Rightarrow> (string \<rightharpoonup> node)
              \<Rightarrow> (error + string) \<times> (string \<rightharpoonup> node)"

text \<open>An asynchronous computation either throws (\<open>Inl\<close>) or returns, and changes the world.\<close>

type_synonym 'a io = "world \<Rightarrow> (error + 'a) \<times> world"

definition io_return :: "'a \<Rightarrow> 'a io" where
  "io_return x = (\<lambda>w. (Inr x, w))"

definition io_bind :: "'a io \<Rightarrow> ('a \<Rightarrow> 'b io) \<Rightarrow> 'b io" where
  "io_bind m f = (\<lambda>w. case m w of (Inl e, w') \<Rightarrow> (Inl e, w') | (Inr x, w') \<Rightarrow> f x w')"

definition io_catch :: "'a io \<Rightarrow> (error \<Rightarrow> 'a io) \<Rightarrow> 'a io" where
  "io_catch m handler = (\<lambda>w. case m w of (Inl e, w') \<Rightarrow> handler e w' | (Inr x, w') \<Rightarrow> (Inr x, w'))"

text \<open>
  \<open>try { m } finally { fin }\<close>: the final block runs on every exit of \<open>m\<close>; the outcome of
  \<open>m\<close> stands unless the final block throws.
\<close>

definition io_finally :: "'a io \<Rightarrow> unit io \<Rightarrow> 'a io" where
  "io_finally m fin =
     (\<lambda>w. case m w of
            (r, w') \<Rightarrow> (case fin w' of (Inl e, w'') \<Rightarrow> (Inl e, w'') | (Inr _, w'') \<Rightarrow> (r, w'')))"

definition logEvent :: "event \<Rightarrow> world \<Rightarrow> world" where
  "logEvent ev w = w\<lparr>trace := trace w @ [ev]\<rparr>"

text \<open>
  The kernel looks a path up after resolving its \<open>.\<close> and \<open>..\<close> segments. In this flat
  table every directory exists and none of them is a symbolic link, so that resolution is
  the textual one.
\<close>

definition kernelPath :: "world \<Rightarrow> string \<Rightarrow> string" where
  "kernelPath w p = path_resolve (cwd w) p"

text \<open>
  \<open>unlink\<close> removes the node the path names; when that node is a symbolic link, the link
  goes and its target stays. It fails on a missing node and on a locked one.
\<close>

definition unlink :: "string \<Rightarrow> unit io" where
  "unlink p =
     (\<lambda>w. let w1 = logEvent (Unlink p) w; k = kernelPath w p
          in if k \<in> locked w then (Inl EPERM, w1)
             else (case files w k of
                     None \<Rightarrow> (Inl ENOENT, w1)
                   | Some _ \<Rightarrow> (Inr (), w1\<lparr>files := (files w)(k := None)\<rparr>)))"

definition writeFile :: "host \<Rightarrow> string \<Rightarrow> string \<Rightarrow> unit io" where
  "writeFile h p content =
     (\<lambda>w. let w1 = logEvent (WriteFile p content) w
          in (case writeError h of
                Some e \<Rightarrow> (Inl e, w1)
              | None \<Rightarrow> (Inr (), w1\<lparr>files := (files w)(kernelPath w p \<mapsto> File content)\<rparr>)))"

text \<open>
  \<open>execFileAsync(cmd, args, options)\<close>: without an \<open>env\<close> option the program inherits the
  environment of the process.
\<close>

definition execFile :: "host \<Rightarrow> string \<Rightarrow> string list \<Rightarrow> (string \<times> string) list option \<Rightarrow> string io" where
  "execFile h cmd args envOption =
     (\<lambda>w. let childEnv = (case envOption of None \<Rightarrow> processEnv h | Some e \<Rightarrow> e);
              w1 = logEvent (ExecFile cmd args childEnv) w
          in (case child h cmd args childEnv (files w) of
                (r, fs) \<Rightarrow> (r, w1\<lparr>files := fs\<rparr>)))"

definition consoleError :: "string \<Rightarrow> error \<Rightarrow> unit io" where
  "consoleError msg e = (\<lambda>w. (Inr (), logEvent (ConsoleError msg e) w))"

definition clipboard_read :: "host \<Rightarrow> clipboardContent io" where
  "clipboard_read h = (\<lambda>w. (clipboardRead h, w))"

text \<open>The canonical form of a path follows the symbolic links it names, up to a bound.\<close>

fun realpath :: "nat \<Rightarrow> (string \<rightharpoonup> node) \<Rightarrow> string \<Rightarrow> string" where
  "realpath 0 fs p = p"
| "realpath (Suc n) fs p = (case fs p of Some (Link t) \<Rightarrow> realpath n fs t | _ \<Rightarrow> p)"

section \<open>cleanupTempFile\<close>

text \<open>The first variant of the file (lines 91 to 103).\<close>

definition cleanupTempFile_v1 :: "string \<Rightarrow> unit io" where
  "cleanupTempFile_v1 filePath =
     (if \<not> startsWith filePath ''/tmp/raycast-ocr'' then io_return ()
      else io_catch (unlink filePath)
             (\<lambda>error. consoleError (''Failed to cleanup temp file: '' @ filePath) error))"

text \<open>The second variant of the file (lines 197 to 218).\<close>

definition tmpDir :: string where
  "tmpDir = ''/tmp/''"

definition cleanupTempFile_v2 :: "string \<Rightarrow> unit io" where
  "cleanupTempFile_v2 filePath =
     (\<lambda>w. if \<not> startsWith filePath tmpDir \<or> includesStr filePath ''..'' then io_return () w
          else
            (let resolvedPath = path_resolve (cwd w) filePath;
                 resolvedTmpDir = path_resolve (cwd w) tmpDir
             in if \<not> startsWith resolvedPath resolvedTmpDir then io_return () w
                else io_catch (unlink filePath)
                       (\<lambda>error. consoleError (''Failed to cleanup temp file: '' @ filePath) error)
                       w))"

section \<open>getClipboardImagePath\<close>

definition imageExtensions :: "string list" where
  "imageExtensions = [''.png'', ''.jpg'', ''.jpeg'', ''.gif'', ''.bmp'', ''.tiff'', ''.heic'']"

definition isImage :: "string \<Rightarrow> bool" where
  "isImage filePath = list_ex (\<lambda>ext. endsWith (toLowerCase filePath) ext) imageExtensions"

definition tempPath :: "host \<Rightarrow> string" where
  "tempPath h = path_join [''/tmp'', ''raycast-ocr-'' @ uuid1 h @ ''.png'']"

definition scriptPath :: "host \<Rightarrow> string" where
  "scriptPath h = path_join [''/tmp'', ''ocr-script-'' @ uuid2 h @ ''.applescript'']"

definition scriptTail :: string where
  \<open>scriptTail =
     ''try'' @ [CHR 0x0A]
     @ ''  set imageData to the clipboard as '' @ [CHR 0xAB] @ ''class PNGf'' @ [CHR 0xBB, CHR 0x0A]
     @ ''  set fileRef to open for access theFile with write permission'' @ [CHR 0x0A]
     @ ''  write imageData to fileRef'' @ [CHR 0x0A]
     @ ''  close access fileRef'' @ [CHR 0x0A]
     @ ''  return "success"'' @ [CHR 0x0A]
     @ ''on error'' @ [CHR 0x0A]
     @ ''  return "no_image"'' @ [CHR 0x0A]
     @ ''end try''\<close>

text \<open>The script of the first variant (lines 37 to 46) holds the destination path.\<close>

definition script_v1 :: "string \<Rightarrow> string" where
  \<open>script_v1 dest = ''set theFile to POSIX file "'' @ dest @ ''"'' @ [CHR 0x0A] @ scriptTail\<close>

text \<open>The script of the second variant (lines 140 to 150) reads it from the environment.\<close>

definition script_v2 :: string where
  \<open>script_v2 =
     ''set outputFile to (system attribute "OCR_OUTPUT_PATH")'' @ [CHR 0x0A]
     @ ''set theFile to POSIX file outputFile'' @ [CHR 0x0A] @ scriptTail\<close>

text \<open>
  The attempt to export the clipboard's image bytes: the outer \<open>try\<close> block of the
  function, lines 32 to 71 in the first variant and 135 to 177 in the second.
\<close>

definition exportClipboardImage_v1 :: "host \<Rightarrow> string option io" where
  "exportClipboardImage_v1 h =
     io_catch
       (io_bind (writeFile h (scriptPath h) (script_v1 (tempPath h))) (\<lambda>_.
          io_finally
            (io_bind (execFile h ''osascript'' [scriptPath h] None) (\<lambda>stdout.
               if trim stdout = ''success''
               then io_bind (cleanupTempFile_v1 (scriptPath h)) (\<lambda>_. io_return (Some (tempPath h)))
               else io_bind (cleanupTempFile_v1 (scriptPath h)) (\<lambda>_. io_return None)))
            (io_catch (cleanupTempFile_v1 (scriptPath h)) (\<lambda>_. io_return ()))))
       (\<lambda>_. io_return None)"

definition exportClipboardImage_v2 :: "host \<Rightarrow> string option io" where
  "exportClipboardImage_v2 h =
     io_catch
       (io_bind (writeFile h (scriptPath h) script_v2) (\<lambda>_.
          io_finally
            (io_bind
               (execFile h ''osascript'' [scriptPath h]
                  (Some (AList.update ''OCR_OUTPUT_PATH'' (tempPath h) (processEnv h))))
               (\<lambda>stdout.
                  if trim stdout = ''success''
                  then io_bind (cleanupTempFile_v2 (scriptPath h)) (\<lambda>_. io_return (Some (tempPath h)))
                  else io_bind (cleanupTempFile_v2 (scriptPath h)) (\<lambda>_. io_return None)))
            (io_catch (cleanupTempFile_v2 (scriptPath h)) (\<lambda>_. io_return ()))))
       (\<lambda>_. io_return None)"

text \<open>
  The test \<open>if (clipboardContent.file)\<close> fails on a missing field and on the empty string.
\<close>

definition getClipboardImagePath_v1 :: "host \<Rightarrow> string option io" where
  "getClipboardImagePath_v1 h =
     io_bind (clipboard_read h) (\<lambda>clipboardContent.
       case clip_file clipboardContent of
         Some filePath \<Rightarrow>
           (if filePath \<noteq> [] \<and> isImage filePath then io_return (Some filePath)
            else exportClipboardImage_v1 h)
       | None \<Rightarrow> exportClipboardImage_v1 h)"

definition getClipboardImagePath_v2 :: "host \<Rightarrow> string option io" where
  "getClipboardImagePath_v2 h =
     io_bind (clipboard_read h) (\<lambda>clipboardContent.
       case clip_file clipboardContent of
         Some filePath \<Rightarrow>
           (if filePath \<noteq> [] \<and> isImage filePath then io_return (Some filePath)
            else exportClipboardImage_v2 h)
       | None \<Rightarrow> exportClipboardImage_v2 h)"

section \<open>takeScreenshot\<close>

text \<open>The two variants of the file hold the same text (lines 78 to 85 and 184 to 191).\<close>

definition screenshotPath :: "host \<Rightarrow> string" where
  "screenshotPath h = path_join [''/tmp'', ''raycast-ocr-screenshot-'' @ uuid1 h @ ''.png'']"

definition takeScreenshot :: "host \<Rightarrow> string io" where
  "takeScreenshot h =
     io_bind (execFile h ''/usr/sbin/screencapture'' [''-i'', screenshotPath h] None)
       (\<lambda>_. io_return (screenshotPath h))"

section \<open>Vocabulary of the properties\<close>

text \<open>
  A call reaches the export attempt when the clipboard answered and the early return on an
  image file path was not taken.
\<close>

definition reachesExport :: "host \<Rightarrow> bool" where
  "reachesExport h =
     (case clipboardRead h of
        Inl _ \<Rightarrow> False
      | Inr c \<Rightarrow> (case clip_file c of None \<Rightarrow> True | Some p \<Rightarrow> \<not> (p \<noteq> [] \<and> isImage p)))"

text \<open>
  What \<open>randomUUID()\<close> returns: five groups of lower-case hexadecimal digits, of lengths
  8, 4, 4, 4 and 12, with dashes between them.
\<close>

definition isUUID :: "string \<Rightarrow> bool" where
  "isUUID u =
     list_all2 (\<lambda>t c. if t = CHR ''-'' then c = CHR ''-'' else c \<in> set ''0123456789abcdef'')
       ''xxxxxxxx-xxxx-xxxx-xxxx-xxxxxxxxxxxx'' u"

subsection \<open>Concrete hosts and worlds\<close>

definition uuidA :: string where
  "uuidA = ''123e4567-e89b-42d3-a456-426614174000''"

definition uuidB :: string where
  "uuidB = ''0a1b2c3d-4e5f-4a6b-8c7d-9e0f1a2b3c4d''"

definition noFile :: "error + clipboardContent" where
  "noFile = Inr \<lparr>clip_text = [], clip_file = None\<rparr>"

definition copiedFile :: "string \<Rightarrow> error + clipboardContent" where
  "copiedFile p = Inr \<lparr>clip_text = [], clip_file = Some p\<rparr>"

text \<open>
  A host whose clipboard answers \<open>clip\<close>, whose first identifier is \<open>u\<close>, whose file
  writes fail with \<open>werr\<close> if given, and whose launched programs end with \<open>out\<close> and
  leave the files alone.
\<close>

definition exampleHost :: "(error + clipboardContent) \<Rightarrow> string \<Rightarrow> error option \<Rightarrow> (error + string) \<Rightarrow> host" where
  "exampleHost clip u werr out =
     \<lparr>clipboardRead = clip,
      uuid1 = u,
      uuid2 = ''9b2c1d3e-0f4a-4b5c-8d6e-7f8091a2b3c4'',
      processEnv = [(''HOME'', ''/Users/a'')],
      writeError = werr,
      child = (\<lambda>cmd args childEnv fs. (out, fs))\<rparr>"

text \<open>
  A host whose launched programs end normally and write a file at their last argument, as
  the capture utility does when the user completes the selection.
\<close>

definition capturingHost :: host where
  "capturingHost =
     \<lparr>clipboardRead = noFile,
      uuid1 = uuidA,
      uuid2 = ''9b2c1d3e-0f4a-4b5c-8d6e-7f8091a2b3c4'',
      processEnv = [(''HOME'', ''/Users/a'')],
      writeError = None,
      child = (\<lambda>cmd args childEnv fs.
                 (Inr [], (case args of [] \<Rightarrow> fs | _ \<Rightarrow> fs(last args \<mapsto> File ''PNG''))))\<rparr>"

definition emptyWorld :: world where
  "emptyWorld = \<lparr>files = Map.empty, locked = {}, cwd = ''/'', trace = []\<rparr>"

definition passwdWorld :: world where
  "passwdWorld =
     \<lparr>files = [''/etc/passwd'' \<mapsto> File ''root:*:0:0'', ''/tmp/notes.txt'' \<mapsto> File ''memo''],
      locked = {}, cwd = ''/'', trace = []\<rparr>"

definition linkWorld :: world where
  "linkWorld =
     \<lparr>files = [''/etc/passwd'' \<mapsto> File ''root:*:0:0'',
               ''/tmp/raycast-ocr-link'' \<mapsto> Link ''/etc/passwd''],
      locked = {}, cwd = ''/'', trace = []\<rparr>"

section \<open>Basic facts\<close>

lemmas io_defs = io_return_def io_bind_def io_catch_def io_finally_def

lemmas run_defs = io_defs clipboard_read_def writeFile_def execFile_def unlink_def consoleError_def
  logEvent_def kernelPath_def path_resolve_def normalizeString_def isAbsolute_def Let_def

lemma exampleHost_fields:
  "clipboardRead (exampleHost clip u werr out) = clip"
  "uuid1 (exampleHost clip u werr out) = u"
  "uuid2 (exampleHost clip u werr out) = ''9b2c1d3e-0f4a-4b5c-8d6e-7f8091a2b3c4''"
  "processEnv (exampleHost clip u werr out) = [(''HOME'', ''/Users/a'')]"
  "writeError (exampleHost clip u werr out) = werr"
  "child (exampleHost clip u werr out) = (\<lambda>cmd args childEnv fs. (out, fs))"
  by (simp_all add: exampleHost_def)

lemma cleanup_v1_returns: "fst (cleanupTempFile_v1 p w) = Inr ()"
  by (simp add: cleanupTempFile_v1_def io_defs unlink_def consoleError_def Let_def
        split: option.splits)

lemma cleanup_v2_returns: "fst (cleanupTempFile_v2 p w) = Inr ()"
  by (simp add: cleanupTempFile_v2_def io_defs unlink_def consoleError_def Let_def
        split: option.splits)

lemma cleanup_v1_result: "cleanupTempFile_v1 p w = (r, w') \<Longrightarrow> r = Inr ()"
  using cleanup_v1_returns [of p w] by simp

lemma cleanup_v2_result: "cleanupTempFile_v2 p w = (r, w') \<Longrightarrow> r = Inr ()"
  using cleanup_v2_returns [of p w] by simp

lemma reachesExport_v1:
  "reachesExport h \<Longrightarrow> getClipboardImagePath_v1 h w = exportClipboardImage_v1 h w"
  by (auto simp add: reachesExport_def getClipboardImagePath_v1_def io_bind_def clipboard_read_def
        split: sum.splits option.splits)

lemma reachesExport_v2:
  "reachesExport h \<Longrightarrow> getClipboardImagePath_v2 h w = exportClipboardImage_v2 h w"
  by (auto simp add: reachesExport_def getClipboardImagePath_v2_def io_bind_def clipboard_read_def
        split: sum.splits option.splits)

lemma reachesExport_noFile: "reachesExport (exampleHost noFile u werr out)"
  by (simp add: reachesExport_def exampleHost_fields noFile_def)

subsection \<open>Generated paths\<close>

lemma isUUID_chars:
  assumes "isUUID u" and "c \<in> set u"
  shows "c \<in> set ''0123456789abcdef-''"
proof -
  from assms(2) obtain i where i: "i < length u" and c: "c = u ! i"
    by (auto simp add: in_set_conv_nth)
  from assms(1) i have
    "(if ''xxxxxxxx-xxxx-xxxx-xxxx-xxxxxxxxxxxx'' ! i = CHR ''-'' then u ! i = CHR ''-''
      else u ! i \<in> set ''0123456789abcdef'')"
    unfolding isUUID_def by (rule list_all2_nthD2)
  with c show ?thesis by (auto split: if_splits)
qed

lemma isUUID_no_slash: "isUUID u \<Longrightarrow> CHR ''/'' \<notin> set u"
  using isUUID_chars [of u "CHR ''/''"] by auto

lemma isUUID_examples: "isUUID uuidA" "isUUID uuidB" "isUUID ''9b2c1d3e-0f4a-4b5c-8d6e-7f8091a2b3c4''"
  by (simp_all add: isUUID_def uuidA_def uuidB_def)

lemma splitOn_no_separator: "c \<notin> set s \<Longrightarrow> splitOn c s = [s]"
  by (induction s) auto

lemma path_join_tmp:
  assumes "CHR ''/'' \<notin> set name" and "name \<noteq> []" and "name \<noteq> ''.''" and "name \<noteq> ''..''"
  shows "path_join [''/tmp'', name] = ''/tmp/'' @ name"
proof -
  have segs: "splitOn (CHR ''/'') (''/tmp/'' @ name) = [[], ''tmp'', name]"
    using assms(1) by (simp add: splitOn_no_separator)
  have "normalizeString (''/tmp/'' @ name) False = ''tmp/'' @ name"
    unfolding normalizeString_def segs using assms by simp
  moreover have "last (''/tmp/'' @ name) \<noteq> CHR ''/''"
  proof -
    have "last name \<in> set name" using assms(2) by (rule last_in_set)
    with assms(1) have "last name \<noteq> CHR ''/''" by auto
    with assms(2) show ?thesis by simp
  qed
  ultimately have "path_normalize (''/tmp/'' @ name) = ''/tmp/'' @ name"
    by (simp add: path_normalize_def isAbsolute_def Let_def)
  then show ?thesis using assms(2) by (simp add: path_join_def)
qed

lemma screenshotPath_form:
  assumes "isUUID (uuid1 h)"
  shows "screenshotPath h = ''/tmp/raycast-ocr-screenshot-'' @ uuid1 h @ ''.png''"
  unfolding screenshotPath_def using isUUID_no_slash [OF assms]
  by (simp add: path_join_tmp)

lemma tempPath_form:
  assumes "isUUID (uuid1 h)"
  shows "tempPath h = ''/tmp/raycast-ocr-'' @ uuid1 h @ ''.png''"
  unfolding tempPath_def using isUUID_no_slash [OF assms]
  by (simp add: path_join_tmp)

lemma scriptPath_form:
  assumes "isUUID (uuid2 h)"
  shows "scriptPath h = ''/tmp/ocr-script-'' @ uuid2 h @ ''.applescript''"
  unfolding scriptPath_def using isUUID_no_slash [OF assms]
  by (simp add: path_join_tmp)

lemma exampleHost_scriptPath:
  "scriptPath (exampleHost clip u werr out) =
     ''/tmp/ocr-script-9b2c1d3e-0f4a-4b5c-8d6e-7f8091a2b3c4.applescript''"
  by (simp add: scriptPath_form exampleHost_fields isUUID_examples)

lemma exampleHost_tempPath:
  "tempPath (exampleHost clip uuidA werr out) =
     ''/tmp/raycast-ocr-123e4567-e89b-42d3-a456-426614174000.png''"
  "tempPath (exampleHost clip uuidB werr out) =
     ''/tmp/raycast-ocr-0a1b2c3d-4e5f-4a6b-8c7d-9e0f1a2b3c4d.png''"
  by (simp_all add: tempPath_form exampleHost_fields isUUID_examples)
     (simp_all add: uuidA_def uuidB_def)

section \<open>cleanupTempFile: where each variant stops at once\<close>

text \<open>
  Each variant returns at once, with the world it was given, when its own prefix test
  fails: \<open>/tmp/raycast-ocr\<close> in the first variant, \<open>/tmp/\<close> in the second.
\<close>

lemma cleanup_v1_noop_outside_sentinel:
  "\<not> startsWith p ''/tmp/raycast-ocr'' \<Longrightarrow> cleanupTempFile_v1 p w = (Inr (), w)"
  by (simp add: cleanupTempFile_v1_def io_return_def)

lemma cleanup_v2_noop_outside_tmp:
  "\<not> startsWith p ''/tmp/'' \<Longrightarrow> cleanupTempFile_v2 p w = (Inr (), w)"
  by (simp add: cleanupTempFile_v2_def tmpDir_def io_return_def)

section \<open>getClipboardImagePath: the clipboard read\<close>

text \<open>
  C10. When the clipboard read throws, the call throws the same error and does nothing
  else: the read sits before the \<open>try\<close> block, so its failure is not turned into a
  null result.
\<close>

theorem clipboard_error_propagates:
  "clipboardRead h = Inl e \<Longrightarrow>
     getClipboardImagePath_v1 h w = (Inl e, w) \<and> getClipboardImagePath_v2 h w = (Inl e, w)"
  by (simp add: getClipboardImagePath_v1_def getClipboardImagePath_v2_def io_bind_def
        clipboard_read_def)

theorem clipboard_error_propagates_witness:
  "clipboardRead (exampleHost (Inl (Failure ''clipboard unavailable'')) uuidA None (Inr [])) =
      Inl (Failure ''clipboard unavailable'')
   \<and> getClipboardImagePath_v1
        (exampleHost (Inl (Failure ''clipboard unavailable'')) uuidA None (Inr [])) emptyWorld =
      (Inl (Failure ''clipboard unavailable''), emptyWorld)
   \<and> getClipboardImagePath_v2
        (exampleHost (Inl (Failure ''clipboard unavailable'')) uuidA None (Inr [])) emptyWorld =
      (Inl (Failure ''clipboard unavailable''), emptyWorld)"
  using clipboard_error_propagates
    [of "exampleHost (Inl (Failure ''clipboard unavailable'')) uuidA None (Inr [])"
        "Failure ''clipboard unavailable''" emptyWorld]
  by (simp add: exampleHost_fields)

section \<open>getClipboardImagePath: a copied image file\<close>

lemma toLowerChar_dot: "toLowerChar c = CHR ''.'' \<longleftrightarrow> c = CHR ''.''"
  by (simp add: toLowerChar_def split: if_splits)

lemma endsWith_lower_dot:
  "endsWith (toLowerCase p) (CHR ''.'' # x) \<longleftrightarrow>
     (\<exists>stem ext. p = stem @ ''.'' @ ext \<and> toLowerCase ext = x)"
proof
  assume "endsWith (toLowerCase p) (CHR ''.'' # x)"
  then obtain ys where "map toLowerChar p = ys @ CHR ''.'' # x"
    by (auto simp add: endsWith_def toLowerCase_def suffix_def)
  then obtain us vs where p: "p = us @ vs" and vs: "map toLowerChar vs = CHR ''.'' # x"
    by (auto simp add: map_eq_append_conv)
  from vs obtain d ext where v: "vs = d # ext" and d: "toLowerChar d = CHR ''.''"
      and e: "map toLowerChar ext = x"
    by (auto simp add: map_eq_Cons_conv)
  from d have "d = CHR ''.''" by (simp only: toLowerChar_dot)
  with p v e have "p = us @ ''.'' @ ext \<and> toLowerCase ext = x"
    by (simp add: toLowerCase_def)
  then show "\<exists>stem ext. p = stem @ ''.'' @ ext \<and> toLowerCase ext = x"
    by blast
next
  assume "\<exists>stem ext. p = stem @ ''.'' @ ext \<and> toLowerCase ext = x"
  then obtain stem ext where "p = stem @ ''.'' @ ext" "toLowerCase ext = x" by blast
  moreover have "toLowerChar (CHR ''.'') = CHR ''.''" by (simp only: toLowerChar_dot)
  ultimately have "toLowerCase p = toLowerCase stem @ CHR ''.'' # x"
    by (simp add: toLowerCase_def)
  then show "endsWith (toLowerCase p) (CHR ''.'' # x)"
    by (simp add: endsWith_def suffix_def)
qed

text \<open>
  The test of the source, a lower-cased path ending in one of seven dotted suffixes, is the
  test of the specification: the path ends in a dot and an extension that, lower-cased,
  is in the allow-list.
\<close>

lemma isImage_iff:
  "isImage p \<longleftrightarrow>
     (\<exists>stem ext. p = stem @ ''.'' @ ext \<and>
        toLowerCase ext \<in> set [''png'', ''jpg'', ''jpeg'', ''gif'', ''bmp'', ''tiff'', ''heic''])"
proof -
  have "isImage p \<longleftrightarrow> (\<exists>x \<in> set [''png'', ''jpg'', ''jpeg'', ''gif'', ''bmp'', ''tiff'', ''heic''].
           endsWith (toLowerCase p) (CHR ''.'' # x))"
    unfolding isImage_def imageExtensions_def by simp
  also have "\<dots> \<longleftrightarrow> (\<exists>x \<in> set [''png'', ''jpg'', ''jpeg'', ''gif'', ''bmp'', ''tiff'', ''heic''].
           \<exists>stem ext. p = stem @ ''.'' @ ext \<and> toLowerCase ext = x)"
    by (simp only: endsWith_lower_dot)
  also have "\<dots> \<longleftrightarrow> (\<exists>stem ext. p = stem @ ''.'' @ ext \<and>
        toLowerCase ext \<in> set [''png'', ''jpg'', ''jpeg'', ''gif'', ''bmp'', ''tiff'', ''heic''])"
    by blast
  finally show ?thesis .
qed

lemma export_v1_outcome:
  "fst (exportClipboardImage_v1 h w) =
     (case writeFile h (scriptPath h) (script_v1 (tempPath h)) w of
        (Inl e, w1) \<Rightarrow> Inr None
      | (Inr u, w1) \<Rightarrow>
          (case execFile h ''osascript'' [scriptPath h] None w1 of
             (Inl e, w2) \<Rightarrow> Inr None
           | (Inr stdout, w2) \<Rightarrow>
               if trim stdout = ''success'' then Inr (Some (tempPath h)) else Inr None))"
  unfolding exportClipboardImage_v1_def io_defs
  by (auto split: prod.splits sum.splits dest: cleanup_v1_result)

lemma export_v2_outcome:
  "fst (exportClipboardImage_v2 h w) =
     (case writeFile h (scriptPath h) script_v2 w of
        (Inl e, w1) \<Rightarrow> Inr None
      | (Inr u, w1) \<Rightarrow>
          (case execFile h ''osascript'' [scriptPath h]
                  (Some (AList.update ''OCR_OUTPUT_PATH'' (tempPath h) (processEnv h))) w1 of
             (Inl e, w2) \<Rightarrow> Inr None
           | (Inr stdout, w2) \<Rightarrow>
               if trim stdout = ''success'' then Inr (Some (tempPath h)) else Inr None))"
  unfolding exportClipboardImage_v2_def io_defs
  by (auto split: prod.splits sum.splits dest: cleanup_v2_result)

lemma export_v1_range: "fst (exportClipboardImage_v1 h w) \<in> {Inr None, Inr (Some (tempPath h))}"
  by (simp add: export_v1_outcome split: prod.splits sum.splits)

lemma export_v2_range: "fst (exportClipboardImage_v2 h w) \<in> {Inr None, Inr (Some (tempPath h))}"
  by (simp add: export_v2_outcome split: prod.splits sum.splits)

lemma tempPath_isImage: "isUUID (uuid1 h) \<Longrightarrow> isImage (tempPath h)"
proof -
  assume "isUUID (uuid1 h)"
  then have "tempPath h = (''/tmp/raycast-ocr-'' @ uuid1 h) @ ''.'' @ ''png''"
    by (simp add: tempPath_form)
  moreover have "toLowerCase ''png'' = ''png''"
    by (simp add: toLowerCase_def toLowerChar_def)
  ultimately show ?thesis unfolding isImage_iff by (metis list.set_intros(1))
qed

text \<open>
  C6. When the clipboard names a file: if the path ends in a dot and an extension that is,
  up to letter case, one of png, jpg, jpeg, gif, bmp, tiff, heic, the call returns that very
  path and touches nothing; otherwise it is the export attempt that runs, and (the
  generated destination being a \<open>.png\<close> path) its answer is not that path.
\<close>

theorem image_file_path_returned_unchanged:
  assumes "clipboardRead h = Inr c" and "clip_file c = Some p"
  shows "((\<exists>stem ext. p = stem @ ''.'' @ ext \<and>
             toLowerCase ext \<in> set [''png'', ''jpg'', ''jpeg'', ''gif'', ''bmp'', ''tiff'', ''heic''])
           \<longrightarrow> getClipboardImagePath_v1 h w = (Inr (Some p), w)
               \<and> getClipboardImagePath_v2 h w = (Inr (Some p), w))
         \<and> (\<not> (\<exists>stem ext. p = stem @ ''.'' @ ext \<and>
             toLowerCase ext \<in> set [''png'', ''jpg'', ''jpeg'', ''gif'', ''bmp'', ''tiff'', ''heic''])
           \<longrightarrow> getClipboardImagePath_v1 h w = exportClipboardImage_v1 h w
               \<and> getClipboardImagePath_v2 h w = exportClipboardImage_v2 h w
               \<and> (isUUID (uuid1 h) \<longrightarrow>
                     fst (getClipboardImagePath_v1 h w) \<noteq> Inr (Some p)
                     \<and> fst (getClipboardImagePath_v2 h w) \<noteq> Inr (Some p)))"
proof (cases "isImage p")
  case True
  then have "p \<noteq> []" unfolding isImage_iff by blast
  with True assms have "getClipboardImagePath_v1 h w = (Inr (Some p), w)"
      and "getClipboardImagePath_v2 h w = (Inr (Some p), w)"
    by (simp_all add: getClipboardImagePath_v1_def getClipboardImagePath_v2_def io_bind_def
          io_return_def clipboard_read_def)
  with True show ?thesis unfolding isImage_iff [symmetric] by simp
next
  case False
  with assms have eq: "getClipboardImagePath_v1 h w = exportClipboardImage_v1 h w"
      "getClipboardImagePath_v2 h w = exportClipboardImage_v2 h w"
    by (simp_all add: getClipboardImagePath_v1_def getClipboardImagePath_v2_def io_bind_def
          clipboard_read_def)
  have "fst (exportClipboardImage_v1 h w) \<noteq> Inr (Some p)
        \<and> fst (exportClipboardImage_v2 h w) \<noteq> Inr (Some p)" if "isUUID (uuid1 h)"
  proof -
    from that False have "tempPath h \<noteq> p" using tempPath_isImage by blast
    then show ?thesis using export_v1_range [of h w] export_v2_range [of h w] by auto
  qed
  with False eq show ?thesis unfolding isImage_iff [symmetric] by simp
qed

theorem image_file_path_returned_unchanged_witness:
  "getClipboardImagePath_v1 (exampleHost (copiedFile ''/Users/a/Shot.PNG'') uuidA None (Inr []))
      emptyWorld = (Inr (Some ''/Users/a/Shot.PNG''), emptyWorld)
   \<and> getClipboardImagePath_v2 (exampleHost (copiedFile ''/Users/a/Shot.PNG'') uuidA None (Inr []))
      emptyWorld = (Inr (Some ''/Users/a/Shot.PNG''), emptyWorld)
   \<and> getClipboardImagePath_v1 (exampleHost (copiedFile ''/Users/a/notes.txt'') uuidA None (Inr []))
      emptyWorld =
     exportClipboardImage_v1 (exampleHost (copiedFile ''/Users/a/notes.txt'') uuidA None (Inr []))
      emptyWorld
   \<and> fst (getClipboardImagePath_v2
        (exampleHost (copiedFile ''/Users/a/notes.txt'') uuidA None (Inr [])) emptyWorld)
      \<noteq> Inr (Some ''/Users/a/notes.txt'')"
proof -
  have yes: "\<exists>stem ext. ''/Users/a/Shot.PNG'' = stem @ ''.'' @ ext \<and>
      toLowerCase ext \<in> set [''png'', ''jpg'', ''jpeg'', ''gif'', ''bmp'', ''tiff'', ''heic'']"
  proof (intro exI conjI)
    show "''/Users/a/Shot.PNG'' = ''/Users/a/Shot'' @ ''.'' @ ''PNG''" by simp
    show "toLowerCase ''PNG'' \<in> set [''png'', ''jpg'', ''jpeg'', ''gif'', ''bmp'', ''tiff'', ''heic'']"
      by (simp add: toLowerCase_def toLowerChar_def)
  qed
  have "\<not> isImage ''/Users/a/notes.txt''"
    by (simp add: isImage_def imageExtensions_def endsWith_def suffix_to_prefix toLowerCase_def
          toLowerChar_def)
  then have no: "\<not> (\<exists>stem ext. ''/Users/a/notes.txt'' = stem @ ''.'' @ ext \<and>
      toLowerCase ext \<in> set [''png'', ''jpg'', ''jpeg'', ''gif'', ''bmp'', ''tiff'', ''heic''])"
    unfolding isImage_iff .
  have r1: "clipboardRead (exampleHost (copiedFile ''/Users/a/Shot.PNG'') uuidA None (Inr [])) =
      Inr \<lparr>clip_text = [], clip_file = Some ''/Users/a/Shot.PNG''\<rparr>"
    by (simp add: exampleHost_fields copiedFile_def)
  have r2: "clipboardRead (exampleHost (copiedFile ''/Users/a/notes.txt'') uuidA None (Inr [])) =
      Inr \<lparr>clip_text = [], clip_file = Some ''/Users/a/notes.txt''\<rparr>"
    by (simp add: exampleHost_fields copiedFile_def)
  have f1: "clip_file \<lparr>clip_text = [], clip_file = Some ''/Users/a/Shot.PNG''\<rparr> =
      Some ''/Users/a/Shot.PNG''" by simp
  have f2: "clip_file \<lparr>clip_text = [], clip_file = Some ''/Users/a/notes.txt''\<rparr> =
      Some ''/Users/a/notes.txt''" by simp
  have u: "isUUID (uuid1 (exampleHost (copiedFile ''/Users/a/notes.txt'') uuidA None (Inr [])))"
    by (simp add: exampleHost_fields isUUID_examples)
  from yes image_file_path_returned_unchanged [OF r1 f1, of emptyWorld]
  have a: "getClipboardImagePath_v1
        (exampleHost (copiedFile ''/Users/a/Shot.PNG'') uuidA None (Inr [])) emptyWorld =
        (Inr (Some ''/Users/a/Shot.PNG''), emptyWorld)
      \<and> getClipboardImagePath_v2
        (exampleHost (copiedFile ''/Users/a/Shot.PNG'') uuidA None (Inr [])) emptyWorld =
        (Inr (Some ''/Users/a/Shot.PNG''), emptyWorld)"
    by blast
  from no u image_file_path_returned_unchanged [OF r2 f2, of emptyWorld]
  have b: "getClipboardImagePath_v1
        (exampleHost (copiedFile ''/Users/a/notes.txt'') uuidA None (Inr [])) emptyWorld =
      exportClipboardImage_v1
        (exampleHost (copiedFile ''/Users/a/notes.txt'') uuidA None (Inr [])) emptyWorld
      \<and> fst (getClipboardImagePath_v2
        (exampleHost (copiedFile ''/Users/a/notes.txt'') uuidA None (Inr [])) emptyWorld)
      \<noteq> Inr (Some ''/Users/a/notes.txt'')"
    by blast
  from a b show ?thesis by (simp only: simp_thms)
qed

section \<open>getClipboardImagePath: the export attempt\<close>

lemma exampleHost_write_ok:
  "fst (writeFile (exampleHost clip u None out) p content w) = Inr ()"
  by (simp add: writeFile_def exampleHost_fields Let_def)

lemma exampleHost_exec:
  "fst (execFile (exampleHost clip u werr out) cmd args envOption w) = out"
  by (simp add: execFile_def exampleHost_fields Let_def)

lemma trim_examples:
  "trim (''success'' @ [CHR 0x0A]) = ''success''"
  "trim (''no_image'' @ [CHR 0x0A]) = ''no_image''"
  by (simp_all add: trim_def isWhiteSpace_def)

text \<open>
  C7. In the export attempt, once the script is written and the interpreter has run and
  printed \<open>stdout\<close>, the call returns the generated destination path when \<open>stdout\<close>,
  trimmed, is \<open>success\<close>, and null for every other output.
\<close>

theorem export_status_decides_result:
  "(reachesExport h
    \<and> fst (writeFile h (scriptPath h) (script_v1 (tempPath h)) w) = Inr ()
    \<and> fst (execFile h ''osascript'' [scriptPath h] None
              (snd (writeFile h (scriptPath h) (script_v1 (tempPath h)) w))) = Inr stdout
      \<longrightarrow> fst (getClipboardImagePath_v1 h w) =
            (if trim stdout = ''success'' then Inr (Some (tempPath h)) else Inr None))
   \<and>
   (reachesExport h
    \<and> fst (writeFile h (scriptPath h) script_v2 w) = Inr ()
    \<and> fst (execFile h ''osascript'' [scriptPath h]
              (Some (AList.update ''OCR_OUTPUT_PATH'' (tempPath h) (processEnv h)))
              (snd (writeFile h (scriptPath h) script_v2 w))) = Inr stdout
      \<longrightarrow> fst (getClipboardImagePath_v2 h w) =
            (if trim stdout = ''success'' then Inr (Some (tempPath h)) else Inr None))"
  by (auto simp add: reachesExport_v1 reachesExport_v2 export_v1_outcome export_v2_outcome
        split: prod.splits sum.splits)

theorem export_status_decides_result_witness:
  "fst (getClipboardImagePath_v1 (exampleHost noFile uuidA None (Inr (''success'' @ [CHR 0x0A])))
        emptyWorld) = Inr (Some ''/tmp/raycast-ocr-123e4567-e89b-42d3-a456-426614174000.png'')
   \<and> fst (getClipboardImagePath_v2 (exampleHost noFile uuidA None (Inr (''success'' @ [CHR 0x0A])))
        emptyWorld) = Inr (Some ''/tmp/raycast-ocr-123e4567-e89b-42d3-a456-426614174000.png'')
   \<and> fst (getClipboardImagePath_v1 (exampleHost noFile uuidA None (Inr (''no_image'' @ [CHR 0x0A])))
        emptyWorld) = Inr None
   \<and> fst (getClipboardImagePath_v2 (exampleHost noFile uuidA None (Inr (''no_image'' @ [CHR 0x0A])))
        emptyWorld) = Inr None"
  using
    export_status_decides_result
      [of "exampleHost noFile uuidA None (Inr (''success'' @ [CHR 0x0A]))" emptyWorld
          "''success'' @ [CHR 0x0A]"]
    export_status_decides_result
      [of "exampleHost noFile uuidA None (Inr (''no_image'' @ [CHR 0x0A]))" emptyWorld
          "''no_image'' @ [CHR 0x0A]"]
  unfolding trim_examples
  by (simp only: reachesExport_noFile exampleHost_write_ok exampleHost_exec exampleHost_tempPath
        simp_thms if_True if_False list.inject char.inject)

text \<open>
  C8. Once the export attempt is reached the call never throws: it returns null or the
  destination path, whatever fails on the way (a locked or missing script file at cleanup
  included). When writing the script fails, and when the interpreter cannot be launched or
  ends in failure, it returns null.
\<close>

theorem export_failures_are_caught:
  "reachesExport h \<Longrightarrow>
     fst (getClipboardImagePath_v1 h w) \<in> {Inr None, Inr (Some (tempPath h))}
     \<and> fst (getClipboardImagePath_v2 h w) \<in> {Inr None, Inr (Some (tempPath h))}
     \<and> (fst (writeFile h (scriptPath h) (script_v1 (tempPath h)) w) = Inl e
          \<longrightarrow> fst (getClipboardImagePath_v1 h w) = Inr None)
     \<and> (fst (writeFile h (scriptPath h) script_v2 w) = Inl e
          \<longrightarrow> fst (getClipboardImagePath_v2 h w) = Inr None)
     \<and> (fst (execFile h ''osascript'' [scriptPath h] None
                (snd (writeFile h (scriptPath h) (script_v1 (tempPath h)) w))) = Inl e
          \<longrightarrow> fst (getClipboardImagePath_v1 h w) = Inr None)
     \<and> (fst (execFile h ''osascript'' [scriptPath h]
                (Some (AList.update ''OCR_OUTPUT_PATH'' (tempPath h) (processEnv h)))
                (snd (writeFile h (scriptPath h) script_v2 w))) = Inl e
          \<longrightarrow> fst (getClipboardImagePath_v2 h w) = Inr None)"
  by (auto simp add: reachesExport_v1 reachesExport_v2 export_v1_outcome export_v2_outcome
        split: prod.splits sum.splits)

theorem export_failures_are_caught_witness:
  "fst (getClipboardImagePath_v1
          (exampleHost noFile uuidA (Some (Failure ''ENOSPC'')) (Inr [])) emptyWorld) = Inr None
   \<and> fst (getClipboardImagePath_v2
          (exampleHost noFile uuidA (Some (Failure ''ENOSPC'')) (Inr [])) emptyWorld) = Inr None
   \<and> fst (getClipboardImagePath_v1
          (exampleHost noFile uuidA None (Inl (Failure ''spawn osascript ENOENT''))) emptyWorld)
        = Inr None
   \<and> fst (getClipboardImagePath_v2
          (exampleHost noFile uuidA None (Inl (Failure ''spawn osascript ENOENT''))) emptyWorld)
        = Inr None"
proof -
  have w: "fst (writeFile (exampleHost noFile uuidA (Some (Failure ''ENOSPC'')) (Inr [])) p s
             emptyWorld) = Inl (Failure ''ENOSPC'')" for p s
    by (simp add: writeFile_def exampleHost_fields Let_def)
  from w export_failures_are_caught
      [OF reachesExport_noFile, of uuidA "Some (Failure ''ENOSPC'')" "Inr []" emptyWorld
         "Failure ''ENOSPC''"]
  have a: "fst (getClipboardImagePath_v1
          (exampleHost noFile uuidA (Some (Failure ''ENOSPC'')) (Inr [])) emptyWorld) = Inr None
   \<and> fst (getClipboardImagePath_v2
          (exampleHost noFile uuidA (Some (Failure ''ENOSPC'')) (Inr [])) emptyWorld) = Inr None"
    by blast
  from exampleHost_exec export_failures_are_caught
      [OF reachesExport_noFile, of uuidA None "Inl (Failure ''spawn osascript ENOENT'')"
         emptyWorld "Failure ''spawn osascript ENOENT''"]
  have b: "fst (getClipboardImagePath_v1
          (exampleHost noFile uuidA None (Inl (Failure ''spawn osascript ENOENT''))) emptyWorld)
        = Inr None
   \<and> fst (getClipboardImagePath_v2
          (exampleHost noFile uuidA None (Inl (Failure ''spawn osascript ENOENT''))) emptyWorld)
        = Inr None"
    by blast
  from a b show ?thesis by (simp only: simp_thms)
qed

section \<open>takeScreenshot\<close>

lemma takeScreenshot_outcome:
  "fst (takeScreenshot h w) =
     (case fst (execFile h ''/usr/sbin/screencapture'' [''-i'', screenshotPath h] None w) of
        Inl e \<Rightarrow> Inl e
      | Inr out \<Rightarrow> Inr (screenshotPath h))"
  by (simp add: takeScreenshot_def io_bind_def io_return_def split: prod.splits sum.splits)

lemma capturingHost_fields:
  "uuid1 capturingHost = uuidA"
  "processEnv capturingHost = [(''HOME'', ''/Users/a'')]"
  "child capturingHost =
     (\<lambda>cmd args childEnv fs.
        (Inr [], (case args of [] \<Rightarrow> fs | _ \<Rightarrow> fs(last args \<mapsto> File ''PNG''))))"
  by (simp_all add: capturingHost_def)

text \<open>
  C9. Whenever the capture utility has ended, the user having completed the capture or
  cancelled it, whatever it printed and whether or not it wrote a file, \<open>takeScreenshot\<close>
  returns the path made of \<open>/tmp/\<close>, \<open>raycast-ocr-screenshot-\<close>, the fresh identifier and
  \<open>.png\<close>, and does nothing after the utility has run: the world it leaves is the one the
  utility left, so the file is never looked for.
\<close>

theorem screenshot_path_when_capture_ends:
  "isUUID (uuid1 h) \<Longrightarrow>
   fst (execFile h ''/usr/sbin/screencapture'' [''-i'', screenshotPath h] None w) = Inr out \<Longrightarrow>
   takeScreenshot h w =
     (Inr (''/tmp/raycast-ocr-screenshot-'' @ uuid1 h @ ''.png''),
      snd (execFile h ''/usr/sbin/screencapture'' [''-i'', screenshotPath h] None w))"
  by (auto simp add: takeScreenshot_def io_bind_def io_return_def screenshotPath_form
        split: prod.splits sum.splits)

text \<open>
  A cancelled capture, after which no file exists at the path, and a completed one, after
  which the file is there: the same path is returned.
\<close>

theorem screenshot_path_when_capture_ends_witness:
  "isUUID uuidA
   \<and> fst (takeScreenshot (exampleHost noFile uuidA None (Inr [])) emptyWorld) =
       Inr ''/tmp/raycast-ocr-screenshot-123e4567-e89b-42d3-a456-426614174000.png''
   \<and> files (snd (takeScreenshot (exampleHost noFile uuidA None (Inr [])) emptyWorld))
       ''/tmp/raycast-ocr-screenshot-123e4567-e89b-42d3-a456-426614174000.png'' = None
   \<and> fst (takeScreenshot capturingHost emptyWorld) =
       Inr ''/tmp/raycast-ocr-screenshot-123e4567-e89b-42d3-a456-426614174000.png''
   \<and> files (snd (takeScreenshot capturingHost emptyWorld))
       ''/tmp/raycast-ocr-screenshot-123e4567-e89b-42d3-a456-426614174000.png'' =
       Some (File ''PNG'')"
proof -
  have u: "isUUID (uuid1 (exampleHost noFile uuidA None (Inr [])))"
    by (simp add: exampleHost_fields isUUID_examples)
  have x: "fst (execFile (exampleHost noFile uuidA None (Inr [])) ''/usr/sbin/screencapture''
             [''-i'', screenshotPath (exampleHost noFile uuidA None (Inr []))] None emptyWorld) = Inr []"
    by (rule exampleHost_exec)
  have f: "files (snd (execFile (exampleHost noFile uuidA None (Inr [])) cmd args None emptyWorld)) =
      Map.empty" for cmd args
    by (simp add: execFile_def exampleHost_fields logEvent_def emptyWorld_def Let_def)
  have cancelled: "takeScreenshot (exampleHost noFile uuidA None (Inr [])) emptyWorld =
      (Inr (''/tmp/raycast-ocr-screenshot-'' @ uuid1 (exampleHost noFile uuidA None (Inr [])) @ ''.png''),
       snd (execFile (exampleHost noFile uuidA None (Inr [])) ''/usr/sbin/screencapture''
             [''-i'', screenshotPath (exampleHost noFile uuidA None (Inr []))] None emptyWorld))"
    by (rule screenshot_path_when_capture_ends [OF u x])
  have u': "isUUID (uuid1 capturingHost)"
    by (simp add: capturingHost_fields isUUID_examples)
  have sp: "screenshotPath capturingHost =
      ''/tmp/raycast-ocr-screenshot-123e4567-e89b-42d3-a456-426614174000.png''"
    by (simp add: screenshotPath_form [OF u'] capturingHost_fields) (simp add: uuidA_def)
  have x': "fst (execFile capturingHost ''/usr/sbin/screencapture''
             [''-i'', screenshotPath capturingHost] None emptyWorld) = Inr []"
    by (simp add: execFile_def capturingHost_fields Let_def)
  have f': "files (snd (execFile capturingHost ''/usr/sbin/screencapture''
             [''-i'', screenshotPath capturingHost] None emptyWorld))
           ''/tmp/raycast-ocr-screenshot-123e4567-e89b-42d3-a456-426614174000.png'' =
         Some (File ''PNG'')"
    unfolding sp by (simp add: execFile_def capturingHost_fields logEvent_def emptyWorld_def Let_def)
  have completed: "takeScreenshot capturingHost emptyWorld =
      (Inr (''/tmp/raycast-ocr-screenshot-'' @ uuid1 capturingHost @ ''.png''),
       snd (execFile capturingHost ''/usr/sbin/screencapture''
             [''-i'', screenshotPath capturingHost] None emptyWorld))"
    by (rule screenshot_path_when_capture_ends [OF u' x'])
  have a: "fst (takeScreenshot (exampleHost noFile uuidA None (Inr [])) emptyWorld) =
       Inr ''/tmp/raycast-ocr-screenshot-123e4567-e89b-42d3-a456-426614174000.png''
     \<and> files (snd (takeScreenshot (exampleHost noFile uuidA None (Inr [])) emptyWorld))
       ''/tmp/raycast-ocr-screenshot-123e4567-e89b-42d3-a456-426614174000.png'' = None"
    unfolding cancelled by (simp add: f exampleHost_fields) (simp add: uuidA_def)
  have b: "fst (takeScreenshot capturingHost emptyWorld) =
       Inr ''/tmp/raycast-ocr-screenshot-123e4567-e89b-42d3-a456-426614174000.png''
     \<and> files (snd (takeScreenshot capturingHost emptyWorld))
       ''/tmp/raycast-ocr-screenshot-123e4567-e89b-42d3-a456-426614174000.png'' =
       Some (File ''PNG'')"
    unfolding completed by (simp add: f' capturingHost_fields) (simp add: uuidA_def)
  from a b isUUID_examples(1) show ?thesis by (simp only: simp_thms)
qed

text \<open>
  Outside that condition, when the utility cannot be launched or ends in failure, the call
  throws the error of the launch: nothing in \<open>takeScreenshot\<close> catches it.
\<close>

lemma screenshot_launch_failure_propagates:
  "fst (execFile h ''/usr/sbin/screencapture'' [''-i'', screenshotPath h] None w) = Inl e \<Longrightarrow>
   takeScreenshot h w =
     (Inl e, snd (execFile h ''/usr/sbin/screencapture'' [''-i'', screenshotPath h] None w))"
  by (auto simp add: takeScreenshot_def io_bind_def split: prod.splits sum.splits)

section \<open>cleanupTempFile: what \<open>path.resolve\<close> can and cannot see\<close>

lemma splitOn_nonempty: "splitOn c s \<noteq> []"
  by (induction s) (auto split: list.splits)

lemma splitOn_hd_prefix: "prefix (hd (splitOn c s)) s"
  by (induction s) (auto split: list.splits)

lemma splitOn_segment_sublist: "seg \<in> set (splitOn c s) \<Longrightarrow> sublist seg s"
proof (induction s arbitrary: seg)
  case Nil
  then show ?case by simp
next
  case (Cons x xs)
  show ?case
  proof (cases "x = c")
    case True
    with Cons.prems have "seg = [] \<or> seg \<in> set (splitOn c xs)" by auto
    then show ?thesis using Cons.IH by (auto simp add: sublist_Cons_right)
  next
    case False
    obtain t ts where sp: "splitOn c xs = t # ts"
      using splitOn_nonempty [of c xs] by (cases "splitOn c xs") auto
    with False Cons.prems have "seg = x # t \<or> seg \<in> set ts" by auto
    then show ?thesis
    proof
      assume "seg = x # t"
      moreover have "prefix t xs" using splitOn_hd_prefix [of c xs] sp by simp
      ultimately show ?thesis by (simp add: sublist_Cons_right)
    next
      assume "seg \<in> set ts"
      with sp have "sublist seg xs" using Cons.IH by simp
      then show ?thesis by (simp add: sublist_Cons_right)
    qed
  qed
qed

lemma normalizeSegments_no_parent:
  "''..'' \<notin> set ss \<Longrightarrow>
     normalizeSegments a ss acc = rev acc @ filter (\<lambda>s. s \<noteq> [] \<and> s \<noteq> ''.'') ss"
  by (induction ss arbitrary: acc) auto

lemma joinWith_hd_prefix: "prefix s (joinWith sep (s # ss))"
  by (cases ss) auto

text \<open>
  A path under \<open>/tmp/\<close> without two dots in a row always resolves under \<open>/tmp\<close>: the
  resolution is done on the text alone.
\<close>

lemma resolve_stays_under_tmp:
  assumes "startsWith p ''/tmp/''" and "\<not> includesStr p ''..''"
  shows "startsWith (path_resolve d p) (path_resolve d ''/tmp/'')"
proof -
  from assms(1) obtain r where p: "p = ''/tmp/'' @ r"
    by (auto simp add: startsWith_def prefix_def)
  have "''..'' \<notin> set (splitOn (CHR ''/'') r)"
  proof
    assume "''..'' \<in> set (splitOn (CHR ''/'') r)"
    then have "sublist ''..'' r" by (rule splitOn_segment_sublist)
    then have "sublist ''..'' (''/tmp/'' @ r)" by (simp add: sublist_Cons_right)
    with assms(2) p show False by (simp add: includesStr_def)
  qed
  moreover have "splitOn (CHR ''/'') p = [] # ''tmp'' # splitOn (CHR ''/'') r"
    unfolding p using splitOn_nonempty [of "CHR ''/''" r]
    by (cases "splitOn (CHR ''/'') r") auto
  ultimately have "normalizeSegments False (splitOn (CHR ''/'') p) [] =
      ''tmp'' # filter (\<lambda>s. s \<noteq> [] \<and> s \<noteq> ''.'') (splitOn (CHR ''/'') r)"
    by (simp add: normalizeSegments_no_parent)
  then have "prefix ''tmp'' (normalizeString p False)"
    unfolding normalizeString_def by (simp only: joinWith_hd_prefix)
  then have "prefix ''/tmp'' (path_resolve d p)"
    by (simp add: path_resolve_def isAbsolute_def p)
  moreover have "path_resolve d ''/tmp/'' = ''/tmp''"
    by (simp add: path_resolve_def isAbsolute_def normalizeString_def)
  ultimately show ?thesis by (simp add: startsWith_def)
qed

text \<open>
  C4. The second test of the second variant compares two texts and never looks at the
  file system, so it cannot tell a symbolic link: every path that passed the first test
  passes it too, and \<open>unlink\<close> is called on the path whatever it names.
\<close>

theorem cleanup_v2_unlinks_whatever_the_path_names:
  "startsWith p ''/tmp/'' \<Longrightarrow> \<not> includesStr p ''..'' \<Longrightarrow>
     cleanupTempFile_v2 p w =
       io_catch (unlink p) (\<lambda>error. consoleError (''Failed to cleanup temp file: '' @ p) error) w"
  by (simp add: cleanupTempFile_v2_def tmpDir_def resolve_stays_under_tmp Let_def)

text \<open>
  A symbolic link under the temp prefix whose canonical form is \<open>/etc/passwd\<close>: the call
  is not a no-op, it removes the link.
\<close>

theorem cleanup_v2_unlinks_whatever_the_path_names_witness:
  "files linkWorld ''/tmp/raycast-ocr-link'' = Some (Link ''/etc/passwd'')
   \<and> realpath (Suc (Suc 0)) (files linkWorld) ''/tmp/raycast-ocr-link'' = ''/etc/passwd''
   \<and> \<not> startsWith ''/etc/passwd'' (realpath (Suc (Suc 0)) (files linkWorld) ''/tmp'')
   \<and> files (snd (cleanupTempFile_v2 ''/tmp/raycast-ocr-link'' linkWorld))
         ''/tmp/raycast-ocr-link'' = None
   \<and> trace (snd (cleanupTempFile_v2 ''/tmp/raycast-ocr-link'' linkWorld)) =
         [Unlink ''/tmp/raycast-ocr-link'']"
proof -
  have a: "startsWith ''/tmp/raycast-ocr-link'' ''/tmp/''"
    by (simp add: startsWith_def)
  have b: "\<not> includesStr ''/tmp/raycast-ocr-link'' ''..''"
    by (simp add: includesStr_def sublist_Cons_right)
  show ?thesis
    unfolding cleanup_v2_unlinks_whatever_the_path_names [OF a b]
    by (simp add: run_defs linkWorld_def startsWith_def)
qed

text \<open>The first variant has no second test and removes the link as well.\<close>

lemma cleanup_v1_removes_link:
  "files (snd (cleanupTempFile_v1 ''/tmp/raycast-ocr-link'' linkWorld))
     ''/tmp/raycast-ocr-link'' = None"
  by (simp add: cleanupTempFile_v1_def run_defs linkWorld_def startsWith_def)

section \<open>cleanupTempFile: the prefix gate\<close>

text \<open>
  C2. The second variant tests the prefix \<open>/tmp/\<close> only. A path under \<open>/tmp/\<close> that does
  not start with \<open>/tmp/raycast-ocr\<close>, the prefix of the files this module creates, and
  has no two dots in a row is therefore not left alone: \<open>unlink\<close> is called on it, and
  unless the path is locked no file is left there.
\<close>

theorem cleanup_v2_unlinks_outside_sentinel:
  "\<not> startsWith p ''/tmp/raycast-ocr'' \<Longrightarrow> startsWith p ''/tmp/'' \<Longrightarrow> \<not> includesStr p ''..'' \<Longrightarrow>
     (\<exists>rest. trace (snd (cleanupTempFile_v2 p w)) = trace w @ Unlink p # rest)
     \<and> (kernelPath w p \<notin> locked w \<longrightarrow>
          files (snd (cleanupTempFile_v2 p w)) (kernelPath w p) = None)"
  by (simp add: cleanupTempFile_v2_def tmpDir_def resolve_stays_under_tmp io_catch_def unlink_def
        consoleError_def logEvent_def Let_def split: option.splits)

text \<open>
  The file \<open>/tmp/notes.txt\<close>, which this module did not create: the first variant leaves
  it alone, the second removes it.
\<close>

theorem cleanup_v2_unlinks_outside_sentinel_witness:
  "\<not> startsWith ''/tmp/notes.txt'' ''/tmp/raycast-ocr''
   \<and> files passwdWorld ''/tmp/notes.txt'' = Some (File ''memo'')
   \<and> cleanupTempFile_v1 ''/tmp/notes.txt'' passwdWorld = (Inr (), passwdWorld)
   \<and> files (snd (cleanupTempFile_v2 ''/tmp/notes.txt'' passwdWorld)) ''/tmp/notes.txt'' = None
   \<and> hd (trace (snd (cleanupTempFile_v2 ''/tmp/notes.txt'' passwdWorld))) =
       Unlink ''/tmp/notes.txt''"
proof -
  have a: "\<not> startsWith ''/tmp/notes.txt'' ''/tmp/raycast-ocr''"
    by (simp add: startsWith_def)
  have b: "startsWith ''/tmp/notes.txt'' ''/tmp/''"
    by (simp add: startsWith_def)
  have c: "\<not> includesStr ''/tmp/notes.txt'' ''..''"
    by (simp add: includesStr_def sublist_Cons_right)
  have k: "kernelPath passwdWorld ''/tmp/notes.txt'' = ''/tmp/notes.txt''"
    by (simp add: kernelPath_def path_resolve_def normalizeString_def isAbsolute_def)
  have l: "''/tmp/notes.txt'' \<notin> locked passwdWorld" and t: "trace passwdWorld = []"
    and f: "files passwdWorld ''/tmp/notes.txt'' = Some (File ''memo'')"
    by (simp_all add: passwdWorld_def)
  from cleanup_v2_unlinks_outside_sentinel [OF a b c, of passwdWorld] k l t
  have "files (snd (cleanupTempFile_v2 ''/tmp/notes.txt'' passwdWorld)) ''/tmp/notes.txt'' = None
     \<and> hd (trace (snd (cleanupTempFile_v2 ''/tmp/notes.txt'' passwdWorld))) =
         Unlink ''/tmp/notes.txt''"
    by auto
  with a f cleanup_v1_noop_outside_sentinel [OF a, of passwdWorld] show ?thesis
    by (simp only: simp_thms)
qed

section \<open>cleanupTempFile: parent-directory segments\<close>

text \<open>The second variant refuses every path with two dots in a row.\<close>

lemma cleanup_v2_traversal_noop:
  "includesStr p ''..'' \<Longrightarrow> cleanupTempFile_v2 p w = (Inr (), w)"
  by (simp add: cleanupTempFile_v2_def io_return_def)

text \<open>
  C5. The first variant has the prefix test only: given
  \<open>/tmp/raycast-ocr-x/../../etc/passwd\<close> it calls \<open>unlink\<close> on that path, and the file
  \<open>/etc/passwd\<close> is gone.
\<close>

theorem cleanup_v1_follows_traversal:
  "includesStr ''/tmp/raycast-ocr-x/../../etc/passwd'' ''..''
   \<and> files passwdWorld ''/etc/passwd'' = Some (File ''root:*:0:0'')
   \<and> files (snd (cleanupTempFile_v1 ''/tmp/raycast-ocr-x/../../etc/passwd'' passwdWorld))
         ''/etc/passwd'' = None
   \<and> trace (snd (cleanupTempFile_v1 ''/tmp/raycast-ocr-x/../../etc/passwd'' passwdWorld)) =
         [Unlink ''/tmp/raycast-ocr-x/../../etc/passwd'']"
  by (simp add: cleanupTempFile_v1_def run_defs passwdWorld_def startsWith_def includesStr_def
        sublist_Cons_right)

section \<open>getClipboardImagePath: the script file\<close>

text \<open>
  The first variant's cleanup wants the prefix \<open>/tmp/raycast-ocr\<close>, and the script is
  written to \<open>/tmp/ocr-script-\<close>...: each of its three cleanup calls on the script returns
  without a system call.
\<close>

lemma cleanup_v1_skips_script:
  assumes "isUUID (uuid2 h)"
  shows "cleanupTempFile_v1 (scriptPath h) w = (Inr (), w)"
  by (simp add: scriptPath_form [OF assms] cleanupTempFile_v1_def startsWith_def io_return_def)

text \<open>
  C1. A run of the first variant with no file on the clipboard: on the success branch and
  on the failure branch alike, the script file is still there when the call returns.
\<close>

theorem script_file_left_behind_v1:
  "fst (getClipboardImagePath_v1 (exampleHost noFile uuidA None (Inr (''success'' @ [CHR 0x0A])))
         emptyWorld)
     = Inr (Some ''/tmp/raycast-ocr-123e4567-e89b-42d3-a456-426614174000.png'')
   \<and> files (snd (getClipboardImagePath_v1
                   (exampleHost noFile uuidA None (Inr (''success'' @ [CHR 0x0A]))) emptyWorld))
        ''/tmp/ocr-script-9b2c1d3e-0f4a-4b5c-8d6e-7f8091a2b3c4.applescript''
     = Some (File (script_v1 ''/tmp/raycast-ocr-123e4567-e89b-42d3-a456-426614174000.png''))
   \<and> fst (getClipboardImagePath_v1 (exampleHost noFile uuidA None (Inr (''no_image'' @ [CHR 0x0A])))
         emptyWorld)
     = Inr None
   \<and> files (snd (getClipboardImagePath_v1
                   (exampleHost noFile uuidA None (Inr (''no_image'' @ [CHR 0x0A]))) emptyWorld))
        ''/tmp/ocr-script-9b2c1d3e-0f4a-4b5c-8d6e-7f8091a2b3c4.applescript''
     = Some (File (script_v1 ''/tmp/raycast-ocr-123e4567-e89b-42d3-a456-426614174000.png''))"
  by (simp add: reachesExport_v1 [OF reachesExport_noFile] exportClipboardImage_v1_def run_defs
        cleanupTempFile_v1_def startsWith_def trim_def isWhiteSpace_def
        exampleHost_scriptPath exampleHost_tempPath exampleHost_fields emptyWorld_def)

text \<open>The second variant, on the same runs, leaves no script file.\<close>

lemma script_file_removed_v2:
  "files (snd (getClipboardImagePath_v2
                 (exampleHost noFile uuidA None (Inr (''success'' @ [CHR 0x0A]))) emptyWorld))
        ''/tmp/ocr-script-9b2c1d3e-0f4a-4b5c-8d6e-7f8091a2b3c4.applescript'' = None
   \<and> files (snd (getClipboardImagePath_v2
                   (exampleHost noFile uuidA None (Inr (''no_image'' @ [CHR 0x0A]))) emptyWorld))
        ''/tmp/ocr-script-9b2c1d3e-0f4a-4b5c-8d6e-7f8091a2b3c4.applescript'' = None"
  by (simp add: reachesExport_v2 [OF reachesExport_noFile] exportClipboardImage_v2_def run_defs
        cleanupTempFile_v2_def tmpDir_def startsWith_def includesStr_def sublist_Cons_right
        trim_def isWhiteSpace_def
        exampleHost_scriptPath exampleHost_tempPath exampleHost_fields emptyWorld_def)

section \<open>getClipboardImagePath: how the destination path reaches the interpreter\<close>

lemma cleanup_v2_trace: "\<exists>evs. trace (snd (cleanupTempFile_v2 p w)) = trace w @ evs"
  by (simp add: cleanupTempFile_v2_def io_defs unlink_def consoleError_def logEvent_def Let_def
        split: option.splits)

text \<open>
  In the second variant the text written to the script file is one constant, and the
  destination path travels in the variable \<open>OCR_OUTPUT_PATH\<close> of the interpreter's
  environment.
\<close>

lemma export_v2_script_and_environment:
  "\<exists>rest. trace (snd (exportClipboardImage_v2 h w)) =
      trace w @ WriteFile (scriptPath h) script_v2 # rest"
  "writeError h = None \<Longrightarrow>
   \<exists>rest. trace (snd (exportClipboardImage_v2 h w)) =
      trace w @ [WriteFile (scriptPath h) script_v2,
                 ExecFile ''osascript'' [scriptPath h]
                   (AList.update ''OCR_OUTPUT_PATH'' (tempPath h) (processEnv h))] @ rest"
proof -
  define w1 where "w1 = snd (writeFile h (scriptPath h) script_v2 w)"
  define cenv where "cenv = AList.update ''OCR_OUTPUT_PATH'' (tempPath h) (processEnv h)"
  define w2 where "w2 = snd (execFile h ''osascript'' [scriptPath h] (Some cenv) w1)"
  define w3 where "w3 = snd (cleanupTempFile_v2 (scriptPath h) w2)"
  define w4 where "w4 = snd (cleanupTempFile_v2 (scriptPath h) w3)"
  have t1: "trace w1 = trace w @ [WriteFile (scriptPath h) script_v2]"
    by (simp add: w1_def writeFile_def logEvent_def Let_def split: option.splits)
  have t2: "trace w2 = trace w1 @ [ExecFile ''osascript'' [scriptPath h] cenv]"
    by (simp add: w2_def execFile_def logEvent_def Let_def split: prod.splits)
  obtain e3 where t3: "trace w3 = trace w2 @ e3"
    unfolding w3_def using cleanup_v2_trace by blast
  obtain e4 where t4: "trace w4 = trace w3 @ e4"
    unfolding w4_def using cleanup_v2_trace by blast
  have cases: "snd (exportClipboardImage_v2 h w) = w1 \<and> writeError h \<noteq> None
      \<or> snd (exportClipboardImage_v2 h w) = w3 \<or> snd (exportClipboardImage_v2 h w) = w4"
    unfolding exportClipboardImage_v2_def io_defs w1_def w2_def w3_def w4_def cenv_def
    by (auto simp add: writeFile_def Let_def split: prod.splits sum.splits option.splits
          dest: cleanup_v2_result)
  then show "\<exists>rest. trace (snd (exportClipboardImage_v2 h w)) =
      trace w @ WriteFile (scriptPath h) script_v2 # rest"
    using t1 t2 t3 t4 by auto
  assume "writeError h = None"
  with cases show "\<exists>rest. trace (snd (exportClipboardImage_v2 h w)) =
      trace w @ [WriteFile (scriptPath h) script_v2,
                 ExecFile ''osascript'' [scriptPath h]
                   (AList.update ''OCR_OUTPUT_PATH'' (tempPath h) (processEnv h))] @ rest"
    using t1 t2 t3 t4 unfolding cenv_def by auto
qed

text \<open>
  C3. In the first variant the destination path is spliced into the script: two runs that
  differ in the destination path alone write two different scripts, each holding its
  path, and the interpreter is given the plain environment of the process.
\<close>

theorem script_text_depends_on_path_v1:
  "trace (snd (getClipboardImagePath_v1
                 (exampleHost noFile uuidA None (Inr (''no_image'' @ [CHR 0x0A]))) emptyWorld)) =
     [WriteFile ''/tmp/ocr-script-9b2c1d3e-0f4a-4b5c-8d6e-7f8091a2b3c4.applescript''
        (script_v1 ''/tmp/raycast-ocr-123e4567-e89b-42d3-a456-426614174000.png''),
      ExecFile ''osascript'' [''/tmp/ocr-script-9b2c1d3e-0f4a-4b5c-8d6e-7f8091a2b3c4.applescript'']
        [(''HOME'', ''/Users/a'')]]
   \<and> trace (snd (getClipboardImagePath_v1
                 (exampleHost noFile uuidB None (Inr (''no_image'' @ [CHR 0x0A]))) emptyWorld)) =
     [WriteFile ''/tmp/ocr-script-9b2c1d3e-0f4a-4b5c-8d6e-7f8091a2b3c4.applescript''
        (script_v1 ''/tmp/raycast-ocr-0a1b2c3d-4e5f-4a6b-8c7d-9e0f1a2b3c4d.png''),
      ExecFile ''osascript'' [''/tmp/ocr-script-9b2c1d3e-0f4a-4b5c-8d6e-7f8091a2b3c4.applescript'']
        [(''HOME'', ''/Users/a'')]]
   \<and> script_v1 ''/tmp/raycast-ocr-123e4567-e89b-42d3-a456-426614174000.png''
       \<noteq> script_v1 ''/tmp/raycast-ocr-0a1b2c3d-4e5f-4a6b-8c7d-9e0f1a2b3c4d.png''
   \<and> includesStr (script_v1 ''/tmp/raycast-ocr-123e4567-e89b-42d3-a456-426614174000.png'')
        ''/tmp/raycast-ocr-123e4567-e89b-42d3-a456-426614174000.png''"
proof -
  have "includesStr (script_v1 d) d" for d
    unfolding includesStr_def script_v1_def by (rule sublist_appendI)
  moreover have "script_v1 ''/tmp/raycast-ocr-123e4567-e89b-42d3-a456-426614174000.png''
       \<noteq> script_v1 ''/tmp/raycast-ocr-0a1b2c3d-4e5f-4a6b-8c7d-9e0f1a2b3c4d.png''"
    by (simp add: script_v1_def)
  moreover have "trace (snd (getClipboardImagePath_v1
                 (exampleHost noFile u None (Inr (''no_image'' @ [CHR 0x0A]))) emptyWorld)) =
     [WriteFile ''/tmp/ocr-script-9b2c1d3e-0f4a-4b5c-8d6e-7f8091a2b3c4.applescript''
        (script_v1 (tempPath (exampleHost noFile u None (Inr (''no_image'' @ [CHR 0x0A]))))),
      ExecFile ''osascript'' [''/tmp/ocr-script-9b2c1d3e-0f4a-4b5c-8d6e-7f8091a2b3c4.applescript'']
        [(''HOME'', ''/Users/a'')]]" for u
    by (simp add: reachesExport_v1 [OF reachesExport_noFile] exportClipboardImage_v1_def run_defs
        cleanupTempFile_v1_def startsWith_def trim_def isWhiteSpace_def
        exampleHost_scriptPath exampleHost_fields emptyWorld_def)
  ultimately show ?thesis by (simp only: exampleHost_tempPath simp_thms)
qed

end
